theory Spec2Isabelle
  imports Complex_Main "HOL-Library.Monad_Syntax"
begin

section \<open>Strings as the source uses them\<close>

text \<open>
  A Python \<open>str\<close> is modelled as a \<open>string\<close>: a list of 8-bit characters, read as the
  code points U+0000 to U+00FF. On that range \<open>str.lower\<close> maps one character to one
  character and the whitespace of \<open>str.strip\<close> and \<open>str.split\<close> is a fixed set of twelve
  code points, so the operations below are the library's on every value of the type.
  The pictographs that the source puts into its answers lie outside the range; they are
  written as the bytes of their UTF-8 encoding.
\<close>

text \<open>
  The upper-case letters of the range are U+0041 to U+005A and U+00C0 to U+00DE without
  U+00D7. The lower-case letter of each is 32 code points higher, which in the binary
  code point is the bit of value 32 set.
\<close>

definition py_lower_char :: "char \<Rightarrow> char" where
  "py_lower_char c =
     (let n = (of_char c :: int)
      in if (65 \<le> n \<and> n \<le> 90) \<or> (192 \<le> n \<and> n \<le> 222 \<and> n \<noteq> 215)
         then (case c of Char b0 b1 b2 b3 b4 b5 b6 b7 \<Rightarrow> Char b0 b1 b2 b3 b4 True b6 b7)
         else c)"

definition py_lower :: "string \<Rightarrow> string" where
  "py_lower s = map py_lower_char s"

definition py_isspace :: "char \<Rightarrow> bool" where
  "py_isspace c =
     (let n = (of_char c :: int)
      in (9 \<le> n \<and> n \<le> 13) \<or> (28 \<le> n \<and> n \<le> 32) \<or> n = 133 \<or> n = 160)"

definition py_strip :: "string \<Rightarrow> string" where
  "py_strip s = rev (dropWhile py_isspace (rev (dropWhile py_isspace s)))"

text \<open>\<open>s.split()\<close>: the maximal runs of characters that are not whitespace.\<close>

fun py_split_aux :: "string \<Rightarrow> string \<Rightarrow> string list" where
  "py_split_aux cur [] = (if cur = [] then [] else [cur])"
| "py_split_aux cur (c # cs) =
     (if py_isspace c
      then (if cur = [] then py_split_aux [] cs else cur # py_split_aux [] cs)
      else py_split_aux (cur @ [c]) cs)"

definition py_split :: "string \<Rightarrow> string list" where
  "py_split s = py_split_aux [] s"

definition startswith :: "string \<Rightarrow> string \<Rightarrow> bool" where
  "startswith s p = (take (length p) s = p)"

text \<open>\<open>p in s\<close> for strings: \<open>p\<close> occurs in \<open>s\<close> as a contiguous piece.\<close>

fun contains :: "string \<Rightarrow> string \<Rightarrow> bool" where
  "contains [] p = (p = [])"
| "contains (c # cs) p = (startswith (c # cs) p \<or> contains cs p)"

text \<open>
  \<open>s.replace(p, '')\<close> for a non-empty \<open>p\<close>: the occurrences of \<open>p\<close> are found from left
  to right, without overlap, and left out. The counter is the number of characters of the
  occurrence just found that are still to be skipped.
\<close>

fun py_remove_aux :: "string \<Rightarrow> nat \<Rightarrow> string \<Rightarrow> string" where
  "py_remove_aux p k [] = []"
| "py_remove_aux p (Suc k) (c # cs) = py_remove_aux p k cs"
| "py_remove_aux p 0 (c # cs) =
     (if startswith (c # cs) p then py_remove_aux p (length p - 1) cs
      else c # py_remove_aux p 0 cs)"

definition py_remove :: "string \<Rightarrow> string \<Rightarrow> string" where
  "py_remove p s = py_remove_aux p 0 s"

text \<open>
  \<open>s.split(p)[-1]\<close> for a non-empty \<open>p\<close>: what follows the last occurrence of \<open>p\<close> that
  the same left-to-right search finds, or all of \<open>s\<close> when there is none.
\<close>

fun py_split_last_aux :: "string \<Rightarrow> nat \<Rightarrow> string \<Rightarrow> string \<Rightarrow> string" where
  "py_split_last_aux p k cur [] = cur"
| "py_split_last_aux p (Suc k) cur (c # cs) = py_split_last_aux p k cur cs"
| "py_split_last_aux p 0 cur (c # cs) =
     (if startswith (c # cs) p then py_split_last_aux p (length p - 1) [] cs
      else py_split_last_aux p 0 (cur @ [c]) cs)"

definition py_split_last :: "string \<Rightarrow> string \<Rightarrow> string" where
  "py_split_last p s = py_split_last_aux p 0 [] s"

text \<open>\<open>str(n)\<close> for an integer: its decimal digits, with a minus sign when negative.\<close>

definition digit_char :: "int \<Rightarrow> char" where
  "digit_char d = ''0123456789'' ! nat d"

function str_digits :: "int \<Rightarrow> string" where
  "str_digits n =
     (if n < 10 then [digit_char n] else str_digits (n div 10) @ [digit_char (n mod 10)])"
  by pat_completeness auto

termination
  by (relation "measure nat") auto

definition str_int :: "int \<Rightarrow> string" where
  "str_int i = (if i < 0 then CHR ''-'' # str_digits (- i) else str_digits i)"

section \<open>Impact estimator and statistics\<close>

text \<open>
  Python floats are modelled by real numbers with exact arithmetic; rounding is outside
  the model. The counters are Python integers, hence \<open>int\<close>.
\<close>

definition calculate_environmental_impact :: "int \<Rightarrow> real \<times> real" where
  "calculate_environmental_impact tokens_used =
     (let co2_grams = real_of_int tokens_used * (2 / 1000);
          water_ml = 25
      in (co2_grams, water_ml))"

record stats =
  rule_based_responses :: int
  local_responses :: int
  cloud_responses :: int
  tokens_saved :: int
  co2_saved_grams :: real
  water_saved_ml :: real
  total_tokens_used :: int
  reasoning_tokens_used :: int

definition fresh_stats :: stats where
  "fresh_stats =
     \<lparr>rule_based_responses = 0, local_responses = 0, cloud_responses = 0,
      tokens_saved = 0, co2_saved_grams = 0, water_saved_ml = 0,
      total_tokens_used = 0, reasoning_tokens_used = 0\<rparr>"

text \<open>
  \<open>update_stats(response_type, tokens)\<close> with an integer \<open>tokens\<close>. The source updates the
  dictionary in place; the model returns the updated record.
\<close>

definition update_stats :: "string \<Rightarrow> int \<Rightarrow> stats \<Rightarrow> stats" where
  "update_stats response_type tokens st =
     (if response_type = ''rule-based'' then
        (let (co2, water) = calculate_environmental_impact 50
         in st\<lparr>rule_based_responses := rule_based_responses st + 1,
               tokens_saved := tokens_saved st + 50,
               co2_saved_grams := co2_saved_grams st + co2,
               water_saved_ml := water_saved_ml st + water\<rparr>)
      else if response_type = ''local'' then
        (let estimated_tokens = 100;
             (co2, water) = calculate_environmental_impact estimated_tokens
         in st\<lparr>local_responses := local_responses st + 1,
               tokens_saved := tokens_saved st + estimated_tokens,
               co2_saved_grams := co2_saved_grams st + co2,
               water_saved_ml := water_saved_ml st + water\<rparr>)
      else if response_type = ''cloud'' then
        st\<lparr>cloud_responses := cloud_responses st + 1,
           total_tokens_used := total_tokens_used st + tokens\<rparr>
      else st)"

section \<open>Complexity classifier\<close>

definition very_complex_keywords :: "string list" where
  "very_complex_keywords =
     [''write code'', ''create a program'', ''explain in detail'',
      ''comprehensive analysis'', ''step by step guide'', ''detailed explanation'',
      ''compare and contrast'', ''prove mathematically'', ''write an essay'',
      ''design a system'']"

text \<open>The loop over the keywords, which returns at the first keyword found.\<close>

fun scan_keywords :: "string list \<Rightarrow> string \<Rightarrow> string" where
  "scan_keywords [] prompt_lower = ''simple''"
| "scan_keywords (keyword # rest) prompt_lower =
     (if contains prompt_lower keyword then ''complex'' else scan_keywords rest prompt_lower)"

definition categorize_complexity :: "string \<Rightarrow> string" where
  "categorize_complexity prompt =
     (let prompt_lower = py_lower prompt;
          word_count = length (py_split prompt)
      in if word_count > 40 then ''complex''
         else scan_keywords very_complex_keywords prompt_lower)"

section \<open>Rule engine\<close>

subsection \<open>The clock\<close>

text \<open>
  \<open>datetime.now()\<close> is an input of the model: the fields of the value it returns that
  the two format strings of the source read. \<open>strftime\<close> is written out for those two
  format strings, with the English names of the default locale. A \<open>datetime\<close> always has
  a month from 1 to 12, a day from 1 and a year from 1.
\<close>

record datetime =
  year :: int
  month :: int
  day :: int
  hour :: int
  minute :: int

definition pad2 :: "int \<Rightarrow> string" where
  "pad2 n = (if n < 10 then CHR ''0'' # str_int n else str_int n)"

definition is_leap :: "int \<Rightarrow> bool" where
  "is_leap y = (y mod 4 = 0 \<and> (y mod 100 \<noteq> 0 \<or> y mod 400 = 0))"

definition days_in_months :: "int \<Rightarrow> int list" where
  "days_in_months y = [31, if is_leap y then 29 else 28, 31, 30, 31, 30, 31, 31, 30, 31, 30, 31]"

definition toordinal :: "datetime \<Rightarrow> int" where
  "toordinal dt =
     (let y = year dt - 1
      in y * 365 + y div 4 - y div 100 + y div 400
         + sum_list (take (nat (month dt - 1)) (days_in_months (year dt))) + day dt)"

definition weekday :: "datetime \<Rightarrow> int" where
  "weekday dt = (toordinal dt + 6) mod 7"

definition weekday_names :: "string list" where
  "weekday_names =
     [''Monday'', ''Tuesday'', ''Wednesday'', ''Thursday'', ''Friday'', ''Saturday'', ''Sunday'']"

definition month_names :: "string list" where
  "month_names =
     [''January'', ''February'', ''March'', ''April'', ''May'', ''June'', ''July'',
      ''August'', ''September'', ''October'', ''November'', ''December'']"

text \<open>\<open>strftime('%I:%M %p')\<close>\<close>

definition strftime_time :: "datetime \<Rightarrow> string" where
  "strftime_time dt =
     pad2 (if hour dt mod 12 = 0 then 12 else hour dt mod 12) @ '':'' @ pad2 (minute dt)
       @ '' '' @ (if hour dt < 12 then ''AM'' else ''PM'')"

text \<open>\<open>strftime('%A, %B %d, %Y')\<close>\<close>

definition strftime_date :: "datetime \<Rightarrow> string" where
  "strftime_date dt =
     weekday_names ! nat (weekday dt) @ '', '' @ month_names ! nat ((month dt - 1) mod 12)
       @ '' '' @ pad2 (day dt) @ '', '' @ str_int (year dt)"

subsection \<open>Evaluating an arithmetic expression\<close>

text \<open>
  The source hands the cleaned prompt to the interpreter's \<open>eval\<close> and formats the value
  into the answer. The outcome of the two together is either an exception or the text of
  the value. The model computes it for integer expressions: decimal literals, binary
  \<open>+\<close>, \<open>-\<close>, \<open>*\<close>, unary \<open>+\<close> and \<open>-\<close>, parentheses and spaces, with the interpreter's
  grammar and precedence. Every other string (true and floor division, powers, floating
  point literals, the empty tuple, the ellipsis, ill-formed text) is left to a parameter
  \<open>other\<close>, which stands for the interpreter there. The interpreter's limits on nesting
  depth and on the number of digits of an integer are not modelled.
\<close>

datatype eval_result = Raises | Value string

datatype token = TInt int | TPlus | TMinus | TStar | TLPar | TRPar

definition is_digit :: "char \<Rightarrow> bool" where
  "is_digit c = (c \<in> set ''0123456789'')"

definition digit_value :: "char \<Rightarrow> int" where
  "digit_value c = of_char c - 48"

text \<open>
  A run of digits is one literal. A literal of several digits that starts with \<open>0\<close> is
  accepted by the interpreter only when all its digits are \<open>0\<close>.
\<close>

definition flush_digits :: "string \<Rightarrow> token list option" where
  "flush_digits ds =
     (if ds = [] then Some []
      else if hd ds = CHR ''0'' \<and> 1 < length ds \<and> \<not> list_all (\<lambda>c. c = CHR ''0'') ds then None
      else Some [TInt (foldl (\<lambda>v c. 10 * v + digit_value c) 0 ds)])"

definition operator_token :: "char \<Rightarrow> string \<Rightarrow> token list option" where
  "operator_token c cs =
     (if c = CHR '' '' then Some []
      else if c = CHR ''+'' then Some [TPlus]
      else if c = CHR ''-'' then Some [TMinus]
      else if c = CHR ''('' then Some [TLPar]
      else if c = CHR '')'' then Some [TRPar]
      else if c = CHR ''*'' \<and> \<not> startswith cs ''*'' then Some [TStar]
      else None)"

fun tokenize_aux :: "string \<Rightarrow> string \<Rightarrow> token list option" where
  "tokenize_aux ds [] = flush_digits ds"
| "tokenize_aux ds (c # cs) =
     (if is_digit c then tokenize_aux (ds @ [c]) cs
      else if c = CHR ''.'' then None
      else (case (flush_digits ds, operator_token c cs, tokenize_aux [] cs) of
              (Some n, Some t, Some ts) \<Rightarrow> Some (n @ t @ ts)
            | _ \<Rightarrow> None))"

definition tokenize :: "string \<Rightarrow> token list option" where
  "tokenize s = tokenize_aux [] s"

text \<open>
  Recursive descent over the tokens, computing the value on the way. The first argument
  bounds the depth of the calls; running out of it gives \<open>None\<close>, like a string outside
  the fragment.
\<close>

function parse_sum :: "nat \<Rightarrow> token list \<Rightarrow> (int \<times> token list) option"
  and parse_sum_rest :: "nat \<Rightarrow> int \<Rightarrow> token list \<Rightarrow> (int \<times> token list) option"
  and parse_term :: "nat \<Rightarrow> token list \<Rightarrow> (int \<times> token list) option"
  and parse_term_rest :: "nat \<Rightarrow> int \<Rightarrow> token list \<Rightarrow> (int \<times> token list) option"
  and parse_factor :: "nat \<Rightarrow> token list \<Rightarrow> (int \<times> token list) option"
where
  "parse_sum 0 ts = None"
| "parse_sum (Suc k) ts =
     (case parse_term k ts of None \<Rightarrow> None | Some (v, r) \<Rightarrow> parse_sum_rest k v r)"
| "parse_sum_rest 0 v ts = None"
| "parse_sum_rest (Suc k) v ts =
     (case ts of
        TPlus # ts' \<Rightarrow>
          (case parse_term k ts' of None \<Rightarrow> None | Some (w, r) \<Rightarrow> parse_sum_rest k (v + w) r)
      | TMinus # ts' \<Rightarrow>
          (case parse_term k ts' of None \<Rightarrow> None | Some (w, r) \<Rightarrow> parse_sum_rest k (v - w) r)
      | _ \<Rightarrow> Some (v, ts))"
| "parse_term 0 ts = None"
| "parse_term (Suc k) ts =
     (case parse_factor k ts of None \<Rightarrow> None | Some (v, r) \<Rightarrow> parse_term_rest k v r)"
| "parse_term_rest 0 v ts = None"
| "parse_term_rest (Suc k) v ts =
     (case ts of
        TStar # ts' \<Rightarrow>
          (case parse_factor k ts' of None \<Rightarrow> None | Some (w, r) \<Rightarrow> parse_term_rest k (v * w) r)
      | _ \<Rightarrow> Some (v, ts))"
| "parse_factor 0 ts = None"
| "parse_factor (Suc k) ts =
     (case ts of
        TPlus # ts' \<Rightarrow> parse_factor k ts'
      | TMinus # ts' \<Rightarrow>
          (case parse_factor k ts' of None \<Rightarrow> None | Some (v, r) \<Rightarrow> Some (- v, r))
      | TInt n # ts' \<Rightarrow> Some (n, ts')
      | TLPar # ts' \<Rightarrow>
          (case parse_sum k ts' of Some (v, TRPar # r) \<Rightarrow> Some (v, r) | _ \<Rightarrow> None)
      | _ \<Rightarrow> None)"
  by pat_completeness auto

termination
  by (relation "measure (\<lambda>x. case x of
         Inl (Inl (k, ts)) \<Rightarrow> k
       | Inl (Inr (k, v, ts)) \<Rightarrow> k
       | Inr (Inl (k, ts)) \<Rightarrow> k
       | Inr (Inr (Inl (k, v, ts))) \<Rightarrow> k
       | Inr (Inr (Inr (k, ts))) \<Rightarrow> k)") auto

definition eval_int_arith :: "string \<Rightarrow> int option" where
  "eval_int_arith s =
     (case tokenize s of
        None \<Rightarrow> None
      | Some ts \<Rightarrow>
          (case parse_sum (4 * length ts + 4) ts of
             None \<Rightarrow> None
           | Some (v, r) \<Rightarrow> if r = [] then Some v else None))"

definition py_eval :: "(string \<Rightarrow> eval_result) \<Rightarrow> string \<Rightarrow> eval_result" where
  "py_eval other s =
     (case eval_int_arith s of Some v \<Rightarrow> Value (str_int v) | None \<Rightarrow> other s)"

subsection \<open>The rules\<close>

definition seedling :: string where
  "seedling = [CHR 0xF0, CHR 0x9F, CHR 0x8C, CHR 0xB1]"

definition alarm_clock :: string where
  "alarm_clock = [CHR 0xE2, CHR 0x8F, CHR 0xB0]"

definition calendar :: string where
  "calendar = [CHR 0xF0, CHR 0x9F, CHR 0x93, CHR 0x85]"

definition abacus :: string where
  "abacus = [CHR 0xF0, CHR 0x9F, CHR 0xA7, CHR 0xAE]"

definition globe :: string where
  "globe = [CHR 0xF0, CHR 0x9F, CHR 0x8C, CHR 0x90]"

definition greetings :: "string list" where
  "greetings = [''hi'', ''hello'', ''hey'', ''sup'', ''howdy'']"

definition is_greeting :: "string \<Rightarrow> bool" where
  "is_greeting prompt_lower =
     list_ex (\<lambda>word. prompt_lower = word \<or> startswith prompt_lower (word @ '' '')) greetings"

definition is_time_query :: "string \<Rightarrow> bool" where
  "is_time_query prompt_lower =
     (contains prompt_lower ''what time'' \<or> contains prompt_lower ''current time'')"

definition is_date_query :: "string \<Rightarrow> bool" where
  "is_date_query prompt_lower =
     (contains prompt_lower ''what date'' \<or> contains prompt_lower ''today'')"

definition has_operator :: "string \<Rightarrow> bool" where
  "has_operator prompt = list_ex (\<lambda>op. contains prompt op) [''+'', ''-'', ''*'', ''/'']"

text \<open>
  The text that the arithmetic rule evaluates: the lowercased prompt without the four
  phrasing tokens, removed one after the other in the source's order, and trimmed.
\<close>

definition calc_of :: "string \<Rightarrow> string" where
  "calc_of prompt =
     py_strip (foldl (\<lambda>calc word. py_remove word calc) (py_lower prompt)
                 [''what is'', ''calculate'', ''='', ''?''])"

definition allowed_chars :: string where
  "allowed_chars = ''0123456789+-*/(). ''"

text \<open>
  The block under \<open>try\<close>. Its \<open>except\<close> clause catches everything and does nothing, so an
  exception of the evaluation ends in the \<open>return None\<close> that follows the block.
\<close>

definition simple_math :: "(string \<Rightarrow> eval_result) \<Rightarrow> string \<Rightarrow> string option" where
  "simple_math other prompt =
     (if has_operator prompt then
        (let calc = calc_of prompt
         in if calc \<noteq> [] \<and> list_all (\<lambda>c. c \<in> set allowed_chars) calc then
              (case py_eval other calc of
                 Value result \<Rightarrow> Some (abacus @ '' '' @ result)
               | Raises \<Rightarrow> None)
            else None)
      else None)"

definition handle_rule_based ::
  "(string \<Rightarrow> eval_result) \<Rightarrow> datetime \<Rightarrow> string \<Rightarrow> string option" where
  "handle_rule_based other now prompt =
     (let prompt_lower = py_strip (py_lower prompt)
      in if is_greeting prompt_lower then Some (''Hello! How can I help you today! '' @ seedling)
         else if is_time_query prompt_lower then Some (alarm_clock @ '' '' @ strftime_time now)
         else if is_date_query prompt_lower then Some (calendar @ '' '' @ strftime_date now)
         else simple_math other prompt)"

section \<open>Backends\<close>

text \<open>
  What the outside world does during one call of \<open>answer_question\<close>: the clock, the local
  model and the HTTP request. \<open>generate\<close> stands for tokenizer, sampling and decoding
  together: the decoded text for a formatted prompt and a token budget, or \<open>None\<close> for an
  exception. \<open>post\<close> stands for \<open>requests.post\<close> with the prompt and the token budget in
  the payload. Each use of one of the two is recorded as an event, and the functions below
  return the events of their run, in order.
\<close>

datatype json =
    JNull
  | JBool bool
  | JInt int
  | JStr string
  | JList "json list"
  | JDict "(string \<times> json) list"

datatype http_result =
    Timeout
  | RequestException
  | Response int "json option"

record world =
  now :: datetime
  generate :: "string \<Rightarrow> int \<Rightarrow> string option"
  post :: "string \<Rightarrow> int \<Rightarrow> http_result"

datatype io_event = LocalGenerate string | CloudPost string

record ecoai =
  use_local :: bool
  local_model_loaded :: bool
  device :: "string option"
  stats :: stats

definition local_inference ::
  "world \<Rightarrow> string \<Rightarrow> int \<Rightarrow> ecoai \<Rightarrow> string option \<times> io_event list" where
  "local_inference w prompt max_tokens s =
     (if \<not> use_local s then (None, [])
      else if \<not> local_model_loaded s then (None, [])
      else if device s = None then (None, [])
      else
        (let formatted_prompt = ''Instruct: '' @ prompt @ [CHR 0x0A] @ ''Output:''
         in case generate w formatted_prompt max_tokens of
              None \<Rightarrow> (None, [LocalGenerate formatted_prompt])
            | Some response \<Rightarrow>
                (Some (if contains response ''Output:''
                       then py_strip (py_split_last ''Output:'' response)
                       else response),
                 [LocalGenerate formatted_prompt])))"

text \<open>
  The body of a response is the value that \<open>response.json()\<close> returns, or \<open>None\<close> when
  that call raises. A dictionary is the list of its entries, each key once. Numbers with a
  fraction are not modelled. Subscripting and \<open>.get\<close> follow Python: what raises there
  gives \<open>None\<close> here.
\<close>

fun subscript_key :: "json \<Rightarrow> string \<Rightarrow> json option" where
  "subscript_key (JDict kvs) k = map_of kvs k"
| "subscript_key _ k = None"

fun subscript_0 :: "json \<Rightarrow> json option" where
  "subscript_0 (JList (x # xs)) = Some x"
| "subscript_0 (JStr (c # cs)) = Some (JStr [c])"
| "subscript_0 _ = None"

fun get_default :: "json \<Rightarrow> string \<Rightarrow> json \<Rightarrow> json option" where
  "get_default (JDict kvs) k d = Some (case map_of kvs k of None \<Rightarrow> d | Some v \<Rightarrow> v)"
| "get_default _ k d = None"

text \<open>\<open>.strip()\<close>, a method of strings only.\<close>

fun strip_method :: "json \<Rightarrow> string option" where
  "strip_method (JStr text) = Some (py_strip text)"
| "strip_method _ = None"

text \<open>The integer that Python's \<open>+\<close> and \<open>*\<close> see in a value; \<open>None\<close> where they raise.\<close>

fun as_int :: "json \<Rightarrow> int option" where
  "as_int (JInt n) = Some n"
| "as_int (JBool b) = Some (if b then 1 else 0)"
| "as_int _ = None"

text \<open>
  \<open>raise_for_status\<close> is called for a status other than 200 and raises for 400 to 599.
\<close>

definition response_json :: "http_result \<Rightarrow> json option" where
  "response_json r =
     (case r of
        Timeout \<Rightarrow> None
      | RequestException \<Rightarrow> None
      | Response status body \<Rightarrow>
          if status \<noteq> 200 \<and> 400 \<le> status \<and> status < 600 then None else body)"

text \<open>
  The statements of \<open>cloud_inference\<close> from \<open>response.json()\<close> to the computation of
  \<open>reasoning_tokens\<close>, and the check that the addition to the counter does not raise:
  the answer, the value of \<open>tokens\<close> and the integer added to \<open>reasoning_tokens_used\<close>.
  \<open>None\<close> is any of the exceptions, all of which the source answers with \<open>(None, 0)\<close>.
\<close>

definition cloud_reply :: "http_result \<Rightarrow> int \<Rightarrow> (string \<times> json \<times> int) option" where
  "cloud_reply r max_tokens =
     do {
       data \<leftarrow> response_json r;
       choices \<leftarrow> subscript_key data ''choices'';
       choice \<leftarrow> subscript_0 choices;
       message \<leftarrow> subscript_key choice ''message'';
       content \<leftarrow> subscript_key message ''content'';
       answer \<leftarrow> strip_method content;
       usage \<leftarrow> get_default data ''usage'' (JDict []);
       tokens \<leftarrow> get_default usage ''total_tokens'' (JInt max_tokens);
       details \<leftarrow> get_default usage ''completion_tokens_details'' (JDict []);
       reasoning_tokens \<leftarrow> get_default details ''reasoning_tokens'' (JInt 0);
       n \<leftarrow> as_int reasoning_tokens;
       Some (answer, tokens, n)
     }"

definition cloud_inference ::
  "world \<Rightarrow> string \<Rightarrow> int \<Rightarrow> ecoai \<Rightarrow> (string option \<times> json) \<times> ecoai \<times> io_event list" where
  "cloud_inference w prompt max_tokens s =
     (case cloud_reply (post w prompt max_tokens) max_tokens of
        None \<Rightarrow> ((None, JInt 0), s, [CloudPost prompt])
      | Some (answer, tokens, n) \<Rightarrow>
          ((Some answer, tokens),
           s\<lparr>stats := (stats s)\<lparr>reasoning_tokens_used := reasoning_tokens_used (stats s) + n\<rparr>\<rparr>,
           [CloudPost prompt]))"

section \<open>Router\<close>

record result =
  answer :: string
  source :: string
  tokens :: int
  co2 :: real

text \<open>
  A call of \<open>answer_question\<close> returns a result, or ends in an exception that the function
  does not catch. The only one within the model is the \<open>TypeError\<close> of
  \<open>update_stats('cloud', tokens)\<close> when the value of \<open>tokens\<close> is not a number; it is
  raised by the second addition of that branch, after the first one has been done.
\<close>

datatype outcome = Raised | Returned result

definition error_result :: result where
  "error_result =
     \<lparr>answer = ''Sorry, I couldn't generate a response. Please check server logs for details.'',
      source = ''error'', tokens = 0, co2 = 0\<rparr>"

text \<open>Step 4 and the end of the function.\<close>

definition answer_from_cloud ::
  "world \<Rightarrow> string \<Rightarrow> ecoai \<Rightarrow> io_event list \<Rightarrow> outcome \<times> ecoai \<times> io_event list" where
  "answer_from_cloud w prompt s io =
     (case cloud_inference w prompt 150 s of ((cloud_response, cloud_tokens), s1, io1) \<Rightarrow>
        (case cloud_response of
           None \<Rightarrow> (Returned error_result, s1, io @ io1)
         | Some text \<Rightarrow>
             if text = [] then (Returned error_result, s1, io @ io1)
             else (case as_int cloud_tokens of
                     None \<Rightarrow>
                       (Raised,
                        s1\<lparr>stats := (stats s1)\<lparr>cloud_responses := cloud_responses (stats s1) + 1\<rparr>\<rparr>,
                        io @ io1)
                   | Some t \<Rightarrow>
                       (let (co2_grams, water_ml) = calculate_environmental_impact t
                        in (Returned \<lparr>answer = ''[Cloud AI '' @ globe @ ''] '' @ text,
                                      source = ''cloud'', tokens = t, co2 = co2_grams\<rparr>,
                            s1\<lparr>stats := update_stats ''cloud'' t (stats s1)\<rparr>,
                            io @ io1)))))"

text \<open>Steps 2 and 3.\<close>

definition answer_from_local ::
  "world \<Rightarrow> string \<Rightarrow> ecoai \<Rightarrow> outcome \<times> ecoai \<times> io_event list" where
  "answer_from_local w prompt s =
     (let complexity = categorize_complexity prompt
      in if complexity = ''simple'' \<and> use_local s then
           (case local_inference w prompt 100 s of (local_response, io) \<Rightarrow>
              (case local_response of
                 None \<Rightarrow> answer_from_cloud w prompt s io
               | Some text \<Rightarrow>
                   if text = [] then answer_from_cloud w prompt s io
                   else (Returned \<lparr>answer = ''[Local AI '' @ seedling @ ''] '' @ text,
                                   source = ''local'', tokens = 0, co2 = 0\<rparr>,
                         s\<lparr>stats := update_stats ''local'' 0 (stats s)\<rparr>,
                         io)))
         else answer_from_cloud w prompt s [])"

text \<open>Step 1, and with it the whole of \<open>answer_question\<close>.\<close>

definition answer_question ::
  "(string \<Rightarrow> eval_result) \<Rightarrow> world \<Rightarrow> string \<Rightarrow> ecoai \<Rightarrow> outcome \<times> ecoai \<times> io_event list" where
  "answer_question other w prompt s =
     (case handle_rule_based other (now w) prompt of
        None \<Rightarrow> answer_from_local w prompt s
      | Some rule_response \<Rightarrow>
          if rule_response = [] then answer_from_local w prompt s
          else (Returned \<lparr>answer = rule_response, source = ''rule-based'', tokens = 0, co2 = 0\<rparr>,
                s\<lparr>stats := update_stats ''rule-based'' 0 (stats s)\<rparr>,
                []))"


section \<open>Conditions on a call\<close>

text \<open>
  Step 3 of \<open>answer_question\<close> gives no answer: the local model is not asked, or what
  \<open>local_inference\<close> returns is \<open>None\<close> or the empty string.
\<close>

definition local_declines :: "world \<Rightarrow> string \<Rightarrow> ecoai \<Rightarrow> bool" where
  "local_declines w prompt s =
     (categorize_complexity prompt = ''simple'' \<and> use_local s
        \<longrightarrow> (case fst (local_inference w prompt 100 s) of None \<Rightarrow> True | Some text \<Rightarrow> text = []))"

text \<open>The events of step 3.\<close>

definition local_events :: "world \<Rightarrow> string \<Rightarrow> ecoai \<Rightarrow> io_event list" where
  "local_events w prompt s =
     (if categorize_complexity prompt = ''simple'' \<and> use_local s
      then snd (local_inference w prompt 100 s) else [])"

section \<open>Counting answers\<close>







section \<open>Worlds, replies and instances of the examples\<close>

text \<open>An interpreter stand-in that raises on every string outside the integer fragment.\<close>

definition other_raises :: "string \<Rightarrow> eval_result" where
  "other_raises s = Raises"

definition morning :: datetime where
  "morning = \<lparr>year = 2024, month = 1, day = 1, hour = 9, minute = 0\<rparr>"

text \<open>No local model output and no network.\<close>

definition offline :: world where
  "offline = \<lparr>now = morning, generate = (\<lambda>p n. None), post = (\<lambda>p n. Timeout)\<rparr>"

definition ready :: ecoai where
  "ready =
     \<lparr>use_local = True, local_model_loaded = True, device = Some ''cpu'', stats = fresh_stats\<rparr>"

definition forty_one_words :: string where
  "forty_one_words =
     ''a a a a a a a a a a a a a a a a a a a a a a a a a a a a a a a a a a a a a a a a a''"

definition evening :: datetime where
  "evening = \<lparr>year = 2024, month = 1, day = 2, hour = 21, minute = 30\<rparr>"


definition reply_without_text_and_usage :: json where
  "reply_without_text_and_usage =
     JDict [(''choices'', JList [JDict [(''message'', JDict [(''content'', JStr '''')])]])]"

definition reply_without_total :: json where
  "reply_without_total =
     JDict [(''choices'', JList [JDict [(''message'', JDict [(''content'', JStr ''Blue.'')])]]),
            (''usage'', JDict [(''prompt_tokens'', JInt 12)])]"

definition cloud_only :: "json \<Rightarrow> world" where
  "cloud_only reply =
     \<lparr>now = morning, generate = (\<lambda>p n. None), post = (\<lambda>p n. Response 200 (Some reply))\<rparr>"






section \<open>Strings: what the search functions compute\<close>

lemma startswith_iff: "startswith s p \<longleftrightarrow> (\<exists>r. s = p @ r)"
proof
  assume "startswith s p"
  then have "s = p @ drop (length p) s"
    unfolding startswith_def by (metis append_take_drop_id)
  then show "\<exists>r. s = p @ r" ..
next
  assume "\<exists>r. s = p @ r"
  then show "startswith s p" by (auto simp: startswith_def)
qed

lemma contains_iff: "contains s p \<longleftrightarrow> (\<exists>a b. s = a @ p @ b)"
proof (induction s)
  case Nil
  show ?case by auto
next
  case (Cons c cs)
  show ?case
  proof
    assume "contains (c # cs) p"
    then consider "startswith (c # cs) p" | "contains cs p" by auto
    then show "\<exists>a b. c # cs = a @ p @ b"
    proof cases
      case 1
      then obtain r where "c # cs = p @ r" using startswith_iff by blast
      then have "c # cs = [] @ p @ r" by simp
      then show ?thesis by blast
    next
      case 2
      then obtain a b where "cs = a @ p @ b" using Cons.IH by blast
      then have "c # cs = (c # a) @ p @ b" by simp
      then show ?thesis by blast
    qed
  next
    assume "\<exists>a b. c # cs = a @ p @ b"
    then obtain a b where ab: "c # cs = a @ p @ b" by blast
    show "contains (c # cs) p"
    proof (cases a)
      case Nil
      with ab have "startswith (c # cs) p" using startswith_iff by auto
      then show ?thesis by simp
    next
      case (Cons x xs)
      with ab have "cs = xs @ p @ b" by simp
      then have "contains cs p" using Cons.IH by blast
      then show ?thesis by simp
    qed
  qed
qed

lemma contains_py_lower:
  assumes "contains s p" and "py_lower p = p"
  shows "contains (py_lower s) p"
proof -
  from assms(1) obtain a b where "s = a @ p @ b" using contains_iff by blast
  then have "py_lower s = py_lower a @ py_lower p @ py_lower b" by (simp add: py_lower_def)
  with assms(2) show ?thesis using contains_iff by metis
qed

text \<open>
  The words of \<open>py_split\<close> are made of the characters of the string that are not
  whitespace, in order, and none of them is empty.
\<close>

lemma py_split_aux_concat:
  "concat (py_split_aux cur s) = cur @ filter (\<lambda>c. \<not> py_isspace c) s"
  by (induction s arbitrary: cur) auto

lemma py_split_concat: "concat (py_split s) = filter (\<lambda>c. \<not> py_isspace c) s"
  by (simp add: py_split_def py_split_aux_concat)

lemma py_split_aux_words:
  "w \<in> set (py_split_aux cur s) \<Longrightarrow> \<forall>c \<in> set cur. \<not> py_isspace c
     \<Longrightarrow> w \<noteq> [] \<and> (\<forall>c \<in> set w. \<not> py_isspace c)"
proof (induction s arbitrary: cur)
  case Nil
  then show ?case by (cases "cur = []") simp_all
next
  case (Cons c cs)
  show ?case
  proof (cases "py_isspace c")
    case True
    show ?thesis
    proof (cases "cur = []")
      case True
      with \<open>py_isspace c\<close> Cons.prems have "w \<in> set (py_split_aux [] cs)" by simp
      then show ?thesis using Cons.IH [of "[]"] by simp
    next
      case False
      with \<open>py_isspace c\<close> Cons.prems have "w = cur \<or> w \<in> set (py_split_aux [] cs)" by simp
      then show ?thesis using Cons.IH [of "[]"] Cons.prems(2) False by auto
    qed
  next
    case False
    with Cons.prems have "w \<in> set (py_split_aux (cur @ [c]) cs)" by simp
    moreover have "\<forall>x \<in> set (cur @ [c]). \<not> py_isspace x" using Cons.prems(2) False by simp
    ultimately show ?thesis using Cons.IH by blast
  qed
qed

lemma py_split_words:
  "w \<in> set (py_split s) \<Longrightarrow> w \<noteq> [] \<and> (\<forall>c \<in> set w. \<not> py_isspace c)"
  using py_split_aux_words [of w "[]" s] by (simp add: py_split_def)

section \<open>Arithmetic: the depth bound\<close>

text \<open>
  A value that the descent finds within some bound is found within every larger bound: the
  bound decides whether a value is found, never which one.
\<close>

lemma parse_factor_step:
  assumes "\<forall>ts x. parse_sum k ts = Some x \<longrightarrow> parse_sum (Suc k) ts = Some x"
    and "\<forall>ts x. parse_factor k ts = Some x \<longrightarrow> parse_factor (Suc k) ts = Some x"
    and "parse_factor (Suc k) ts = Some x"
  shows "parse_factor (Suc (Suc k)) ts = Some x"
proof (cases ts)
  case Nil
  with assms(3) show ?thesis by simp
next
  case (Cons a ts')
  show ?thesis
  proof (cases a)
    case (TInt n)
    with Cons assms(3) show ?thesis by simp
  next
    case TPlus
    with Cons assms(3) have "parse_factor k ts' = Some x" by simp
    then have "parse_factor (Suc k) ts' = Some x" using assms(2) by blast
    with Cons TPlus show ?thesis by (simp del: parse_factor.simps add: parse_factor.simps(2) [of "Suc k"])
  next
    case TMinus
    with Cons assms(3) obtain v r where "parse_factor k ts' = Some (v, r)" "x = (- v, r)"
      by (auto split: option.splits)
    moreover from this have "parse_factor (Suc k) ts' = Some (v, r)" using assms(2) by blast
    ultimately show ?thesis using Cons TMinus
      by (simp del: parse_factor.simps add: parse_factor.simps(2) [of "Suc k"])
  next
    case TStar
    with Cons assms(3) show ?thesis by simp
  next
    case TLPar
    with Cons assms(3) obtain v r where "parse_sum k ts' = Some (v, TRPar # r)" "x = (v, r)"
      by (auto split: option.splits list.splits token.splits)
    moreover from this have "parse_sum (Suc k) ts' = Some (v, TRPar # r)" using assms(1) by blast
    ultimately show ?thesis using Cons TLPar
      by (simp del: parse_factor.simps parse_sum.simps add: parse_factor.simps(2) [of "Suc k"])
  next
    case TRPar
    with Cons assms(3) show ?thesis by simp
  qed
qed


lemma parse_term_rest_step:
  assumes "\<forall>ts x. parse_factor k ts = Some x \<longrightarrow> parse_factor (Suc k) ts = Some x"
    and "\<forall>v ts x. parse_term_rest k v ts = Some x \<longrightarrow> parse_term_rest (Suc k) v ts = Some x"
    and "parse_term_rest (Suc k) v ts = Some x"
  shows "parse_term_rest (Suc (Suc k)) v ts = Some x"
proof (cases "\<exists>ts'. ts = TStar # ts'")
  case False
  then have "parse_term_rest (Suc j) v ts = Some (v, ts)" for j
    by (auto split: list.splits token.splits)
  with assms(3) show ?thesis by metis
next
  case True
  then obtain ts' where ts: "ts = TStar # ts'" by blast
  with assms(3) obtain w r where w: "parse_factor k ts' = Some (w, r)"
      and rest: "parse_term_rest k (v * w) r = Some x"
    by (auto split: option.splits)
  from w have "parse_factor (Suc k) ts' = Some (w, r)" using assms(1) by blast
  moreover from rest have "parse_term_rest (Suc k) (v * w) r = Some x" using assms(2) by blast
  ultimately show ?thesis using ts
    by (simp del: parse_factor.simps parse_term_rest.simps
             add: parse_term_rest.simps(2) [of "Suc k"])
qed

lemma parse_term_step:
  assumes "\<forall>ts x. parse_factor k ts = Some x \<longrightarrow> parse_factor (Suc k) ts = Some x"
    and "\<forall>v ts x. parse_term_rest k v ts = Some x \<longrightarrow> parse_term_rest (Suc k) v ts = Some x"
    and "parse_term (Suc k) ts = Some x"
  shows "parse_term (Suc (Suc k)) ts = Some x"
proof -
  from assms(3) obtain v r where v: "parse_factor k ts = Some (v, r)"
      and rest: "parse_term_rest k v r = Some x"
    by (auto split: option.splits)
  from v have "parse_factor (Suc k) ts = Some (v, r)" using assms(1) by blast
  moreover from rest have "parse_term_rest (Suc k) v r = Some x" using assms(2) by blast
  ultimately show ?thesis
    by (simp del: parse_factor.simps parse_term_rest.simps parse_term.simps
             add: parse_term.simps(2) [of "Suc k"])
qed

lemma parse_sum_rest_step:
  assumes "\<forall>ts x. parse_term k ts = Some x \<longrightarrow> parse_term (Suc k) ts = Some x"
    and "\<forall>v ts x. parse_sum_rest k v ts = Some x \<longrightarrow> parse_sum_rest (Suc k) v ts = Some x"
    and "parse_sum_rest (Suc k) v ts = Some x"
  shows "parse_sum_rest (Suc (Suc k)) v ts = Some x"
proof (cases "\<exists>ts'. ts = TPlus # ts' \<or> ts = TMinus # ts'")
  case False
  then have "parse_sum_rest (Suc j) v ts = Some (v, ts)" for j
    by (auto split: list.splits token.splits)
  with assms(3) show ?thesis by metis
next
  case True
  then obtain ts' where ts: "ts = TPlus # ts' \<or> ts = TMinus # ts'" by blast
  then show ?thesis
  proof
    assume p: "ts = TPlus # ts'"
    with assms(3) obtain w r where w: "parse_term k ts' = Some (w, r)"
        and rest: "parse_sum_rest k (v + w) r = Some x"
      by (auto split: option.splits)
    from w have "parse_term (Suc k) ts' = Some (w, r)" using assms(1) by blast
    moreover from rest have "parse_sum_rest (Suc k) (v + w) r = Some x" using assms(2) by blast
    ultimately show ?thesis using p
      by (simp del: parse_term.simps parse_sum_rest.simps
               add: parse_sum_rest.simps(2) [of "Suc k"])
  next
    assume m: "ts = TMinus # ts'"
    with assms(3) obtain w r where w: "parse_term k ts' = Some (w, r)"
        and rest: "parse_sum_rest k (v - w) r = Some x"
      by (auto split: option.splits)
    from w have "parse_term (Suc k) ts' = Some (w, r)" using assms(1) by blast
    moreover from rest have "parse_sum_rest (Suc k) (v - w) r = Some x" using assms(2) by blast
    ultimately show ?thesis using m
      by (simp del: parse_term.simps parse_sum_rest.simps
               add: parse_sum_rest.simps(2) [of "Suc k"])
  qed
qed

lemma parse_sum_step:
  assumes "\<forall>ts x. parse_term k ts = Some x \<longrightarrow> parse_term (Suc k) ts = Some x"
    and "\<forall>v ts x. parse_sum_rest k v ts = Some x \<longrightarrow> parse_sum_rest (Suc k) v ts = Some x"
    and "parse_sum (Suc k) ts = Some x"
  shows "parse_sum (Suc (Suc k)) ts = Some x"
proof -
  from assms(3) obtain v r where v: "parse_term k ts = Some (v, r)"
      and rest: "parse_sum_rest k v r = Some x"
    by (auto split: option.splits)
  from v have "parse_term (Suc k) ts = Some (v, r)" using assms(1) by blast
  moreover from rest have "parse_sum_rest (Suc k) v r = Some x" using assms(2) by blast
  ultimately show ?thesis
    by (simp del: parse_term.simps parse_sum_rest.simps parse_sum.simps
             add: parse_sum.simps(2) [of "Suc k"])
qed

lemma parse_more_fuel:
  "(\<forall>ts x. parse_sum k ts = Some x \<longrightarrow> parse_sum (Suc k) ts = Some x)
   \<and> (\<forall>v ts x. parse_sum_rest k v ts = Some x \<longrightarrow> parse_sum_rest (Suc k) v ts = Some x)
   \<and> (\<forall>ts x. parse_term k ts = Some x \<longrightarrow> parse_term (Suc k) ts = Some x)
   \<and> (\<forall>v ts x. parse_term_rest k v ts = Some x \<longrightarrow> parse_term_rest (Suc k) v ts = Some x)
   \<and> (\<forall>ts x. parse_factor k ts = Some x \<longrightarrow> parse_factor (Suc k) ts = Some x)"
proof (induction k)
  case 0
  show ?case by simp
next
  case (Suc k)
  then have s: "\<forall>ts x. parse_sum k ts = Some x \<longrightarrow> parse_sum (Suc k) ts = Some x"
    and s': "\<forall>v ts x. parse_sum_rest k v ts = Some x \<longrightarrow> parse_sum_rest (Suc k) v ts = Some x"
    and t: "\<forall>ts x. parse_term k ts = Some x \<longrightarrow> parse_term (Suc k) ts = Some x"
    and t': "\<forall>v ts x. parse_term_rest k v ts = Some x \<longrightarrow> parse_term_rest (Suc k) v ts = Some x"
    and f: "\<forall>ts x. parse_factor k ts = Some x \<longrightarrow> parse_factor (Suc k) ts = Some x"
    by blast+
  show ?case
  proof (intro conjI allI impI)
    fix ts x assume "parse_sum (Suc k) ts = Some x"
    with t s' show "parse_sum (Suc (Suc k)) ts = Some x" by (rule parse_sum_step)
  next
    fix v ts x assume "parse_sum_rest (Suc k) v ts = Some x"
    with t s' show "parse_sum_rest (Suc (Suc k)) v ts = Some x" by (rule parse_sum_rest_step)
  next
    fix ts x assume "parse_term (Suc k) ts = Some x"
    with f t' show "parse_term (Suc (Suc k)) ts = Some x" by (rule parse_term_step)
  next
    fix v ts x assume "parse_term_rest (Suc k) v ts = Some x"
    with f t' show "parse_term_rest (Suc (Suc k)) v ts = Some x" by (rule parse_term_rest_step)
  next
    fix ts x assume "parse_factor (Suc k) ts = Some x"
    with s f show "parse_factor (Suc (Suc k)) ts = Some x" by (rule parse_factor_step)
  qed
qed

lemma parse_sum_fuel:
  assumes "parse_sum k ts = Some x" and "k \<le> k'"
  shows "parse_sum k' ts = Some x"
proof -
  have "parse_sum (k + d) ts = Some x" for d
  proof (induction d)
    case 0
    show ?case using assms(1) by simp
  next
    case (Suc d)
    then have "parse_sum (Suc (k + d)) ts = Some x" using parse_more_fuel [of "k + d"] by blast
    then show ?case by simp
  qed
  from this [of "k' - k"] show ?thesis using assms(2) by simp
qed

section \<open>Impact estimator\<close>


section \<open>Statistics\<close>

text \<open>
  C5: \<open>update_stats\<close> with \<open>'rule-based'\<close> adds 1 to \<open>rule_based_responses\<close>, 50 to
  \<open>tokens_saved\<close> and the two estimates for 50 tokens to the saved totals; with \<open>'local'\<close> it
  adds 1 to \<open>local_responses\<close>, 100 to \<open>tokens_saved\<close> and the two estimates for 100 tokens
  to the saved totals; with \<open>'cloud'\<close> and a token count \<open>t\<close> it adds 1 to
  \<open>cloud_responses\<close> and \<open>t\<close> to \<open>total_tokens_used\<close>. In each case every other field is
  as before.
\<close>

theorem record_outcome:
  "update_stats ''rule-based'' t st =
     st\<lparr>rule_based_responses := rule_based_responses st + 1,
        tokens_saved := tokens_saved st + 50,
        co2_saved_grams := co2_saved_grams st + fst (calculate_environmental_impact 50),
        water_saved_ml := water_saved_ml st + snd (calculate_environmental_impact 50)\<rparr>
   \<and> update_stats ''local'' t st =
     st\<lparr>local_responses := local_responses st + 1,
        tokens_saved := tokens_saved st + 100,
        co2_saved_grams := co2_saved_grams st + fst (calculate_environmental_impact 100),
        water_saved_ml := water_saved_ml st + snd (calculate_environmental_impact 100)\<rparr>
   \<and> update_stats ''cloud'' t st =
     st\<lparr>cloud_responses := cloud_responses st + 1,
        total_tokens_used := total_tokens_used st + t\<rparr>"
  by (simp add: update_stats_def calculate_environmental_impact_def)

section \<open>Complexity classifier\<close>

lemma scan_keywords_eq:
  "scan_keywords ks l = (if \<exists>k \<in> set ks. contains l k then ''complex'' else ''simple'')"
  by (induction ks) auto

lemma py_lower_design: "py_lower ''design a system'' = ''design a system''"
  by code_simp

text \<open>
  C3: \<open>categorize_complexity\<close> returns \<open>"complex"\<close> exactly when the prompt splits into more
  than 40 words or its lowercased form contains one of the ten phrases, and \<open>"simple"\<close>
  otherwise. So a prompt of more than 40 words is complex whatever it contains, and a
  prompt that contains \<open>design a system\<close> is complex whatever its length.
\<close>

theorem classify_characterised:
  "categorize_complexity prompt =
     (if 40 < length (py_split prompt)
         \<or> (\<exists>k \<in> {''write code'', ''create a program'', ''explain in detail'',
                   ''comprehensive analysis'', ''step by step guide'', ''detailed explanation'',
                   ''compare and contrast'', ''prove mathematically'', ''write an essay'',
                   ''design a system''}. contains (py_lower prompt) k)
      then ''complex'' else ''simple'')
   \<and> (40 < length (py_split prompt) \<longrightarrow> categorize_complexity prompt = ''complex'')
   \<and> (contains prompt ''design a system'' \<longrightarrow> categorize_complexity prompt = ''complex'')"
proof -
  have set_eq: "set very_complex_keywords =
      {''write code'', ''create a program'', ''explain in detail'',
       ''comprehensive analysis'', ''step by step guide'', ''detailed explanation'',
       ''compare and contrast'', ''prove mathematically'', ''write an essay'',
       ''design a system''}"
    unfolding very_complex_keywords_def by (simp add: insert_commute)
  have main: "categorize_complexity prompt =
     (if 40 < length (py_split prompt)
         \<or> (\<exists>k \<in> set very_complex_keywords. contains (py_lower prompt) k)
      then ''complex'' else ''simple'')"
    unfolding categorize_complexity_def Let_def scan_keywords_eq by simp
  have long: "40 < length (py_split prompt) \<longrightarrow> categorize_complexity prompt = ''complex''"
    using main by simp
  have design: "contains prompt ''design a system'' \<longrightarrow> categorize_complexity prompt = ''complex''"
  proof
    assume "contains prompt ''design a system''"
    then have "contains (py_lower prompt) ''design a system''"
      using contains_py_lower py_lower_design by blast
    moreover have "''design a system'' \<in> set very_complex_keywords"
      unfolding very_complex_keywords_def by simp
    ultimately show "categorize_complexity prompt = ''complex''"
      using main by auto
  qed
  show ?thesis using main long design unfolding set_eq by blast
qed

theorem classify_characterised_witness:
  "length (py_split forty_one_words) = 41
   \<and> categorize_complexity forty_one_words = ''complex''
   \<and> contains ''design a system for X'' ''design a system''
   \<and> length (py_split ''design a system for X'') = 5
   \<and> categorize_complexity ''design a system for X'' = ''complex''"
proof -
  have words: "length (py_split forty_one_words) = 41" by code_simp
  have short: "length (py_split ''design a system for X'') = 5" by code_simp
  have phrase: "contains ''design a system for X'' ''design a system''" by code_simp
  have "categorize_complexity forty_one_words = ''complex''"
    using classify_characterised [of forty_one_words] words by simp
  moreover have "categorize_complexity ''design a system for X'' = ''complex''"
    using classify_characterised [of "''design a system for X''"] phrase by blast
  ultimately show ?thesis using words short phrase by blast
qed

section \<open>Router: the rule tier\<close>

lemma simple_math_nonempty: "simple_math other prompt = Some a \<Longrightarrow> a \<noteq> []"
  by (auto simp: simple_math_def Let_def abacus_def split: if_splits eval_result.splits)

lemma handle_rule_based_nonempty: "handle_rule_based other t prompt = Some a \<Longrightarrow> a \<noteq> []"
  by (auto simp: handle_rule_based_def Let_def alarm_clock_def calendar_def
           dest: simple_math_nonempty split: if_splits)

text \<open>
  C1: whenever \<open>handle_rule_based\<close> returns an answer for the prompt, \<open>answer_question\<close>
  returns that answer with source \<open>rule-based\<close>, 0 tokens and 0 grams, having recorded one
  rule-based response, and without a use of the local model or of the HTTP request: the list of
  events of the call is empty, and the outcome is the same whatever the two backends
  would have done.
\<close>

theorem rule_answer_short_circuits:
  assumes "handle_rule_based other (now w) prompt = Some a"
  shows "answer_question other w prompt s =
           (Returned \<lparr>answer = a, source = ''rule-based'', tokens = 0, co2 = 0\<rparr>,
            s\<lparr>stats := update_stats ''rule-based'' 0 (stats s)\<rparr>, [])
         \<and> answer_question other (w\<lparr>generate := g, post := p\<rparr>) prompt s =
             answer_question other w prompt s"
proof -
  have "a \<noteq> []" using assms by (rule handle_rule_based_nonempty)
  then show ?thesis using assms by (simp add: answer_question_def)
qed

theorem rule_answer_short_circuits_witness:
  "handle_rule_based other_raises (now offline) ''hi'' =
     Some (''Hello! How can I help you today! '' @ seedling)
   \<and> answer_question other_raises offline ''hi'' ready =
       (Returned \<lparr>answer = ''Hello! How can I help you today! '' @ seedling,
                  source = ''rule-based'', tokens = 0, co2 = 0\<rparr>,
        ready\<lparr>stats := update_stats ''rule-based'' 0 (stats ready)\<rparr>, [])"
proof -
  have h: "handle_rule_based other_raises (now offline) ''hi'' =
     Some (''Hello! How can I help you today! '' @ seedling)"
    by code_simp
  show ?thesis using h rule_answer_short_circuits [OF h, of ready] by simp
qed

section \<open>Rule engine: arithmetic\<close>

lemma two_plus_two_rules:
  "\<not> is_greeting (py_strip (py_lower ''what is 2+2''))"
  "\<not> is_time_query (py_strip (py_lower ''what is 2+2''))"
  "\<not> is_date_query (py_strip (py_lower ''what is 2+2''))"
  "has_operator ''what is 2+2''"
  by code_simp+

lemma two_plus_two_calc: "calc_of ''what is 2+2'' = ''2+2''"
  by code_simp

lemma two_plus_two_allowed: "list_all (\<lambda>c. c \<in> set allowed_chars) ''2+2''"
  by code_simp

lemma two_plus_two_value: "eval_int_arith ''2+2'' = Some 4"
  by code_simp

lemma str_int_4: "str_int 4 = ''4''"
  by code_simp

lemma two_plus_two: "handle_rule_based other t ''what is 2+2'' = Some (abacus @ '' 4'')"
  using two_plus_two_rules two_plus_two_allowed
  by (simp add: handle_rule_based_def simple_math_def two_plus_two_calc py_eval_def
                two_plus_two_value str_int_4)

lemma simple_math_declines:
  assumes "\<exists>c \<in> set (calc_of prompt). c \<notin> set allowed_chars"
  shows "simple_math other prompt = None"
proof -
  from assms have "\<not> list_all (\<lambda>c. c \<in> set allowed_chars) (calc_of prompt)"
    by (simp add: list_all_iff)
  then show ?thesis by (simp add: simple_math_def Let_def)
qed

lemma simple_math_swallows:
  assumes "py_eval other (calc_of prompt) = Raises"
  shows "simple_math other prompt = None"
  using assms by (simp add: simple_math_def Let_def)

text \<open>
  C7: for the prompt \<open>what is 2+2\<close> the rule engine answers with the value 4 behind the
  pictograph, whatever the clock and whatever the interpreter does outside the integer
  fragment. For any prompt whose text after removal of the four phrasing tokens and
  trimming has a character other than a digit, one of the four operators, a parenthesis,
  a point or a space, the arithmetic rule returns nothing, and so does the rule engine
  unless one of the three earlier rules answers. When the evaluation raises, the
  arithmetic rule returns nothing as well: the result type of the rule has no exception.
\<close>

theorem arithmetic_rule:
  "handle_rule_based other t ''what is 2+2'' = Some (abacus @ '' 4'')
   \<and> ((\<exists>c \<in> set (calc_of prompt). c \<notin> set ''0123456789+-*/(). '')
        \<longrightarrow> simple_math other prompt = None)
   \<and> ((\<exists>c \<in> set (calc_of prompt). c \<notin> set ''0123456789+-*/(). '')
        \<and> \<not> is_greeting (py_strip (py_lower prompt))
        \<and> \<not> is_time_query (py_strip (py_lower prompt))
        \<and> \<not> is_date_query (py_strip (py_lower prompt))
        \<longrightarrow> handle_rule_based other t prompt = None)
   \<and> (py_eval other (calc_of prompt) = Raises \<longrightarrow> simple_math other prompt = None)"
proof -
  have declines: "simple_math other prompt = None"
    if "\<exists>c \<in> set (calc_of prompt). c \<notin> set ''0123456789+-*/(). ''"
    using that simple_math_declines unfolding allowed_chars_def by blast
  then have "handle_rule_based other t prompt = None"
    if "\<exists>c \<in> set (calc_of prompt). c \<notin> set ''0123456789+-*/(). ''"
       "\<not> is_greeting (py_strip (py_lower prompt))"
       "\<not> is_time_query (py_strip (py_lower prompt))"
       "\<not> is_date_query (py_strip (py_lower prompt))"
    using that by (simp add: handle_rule_based_def Let_def)
  then show ?thesis using two_plus_two declines simple_math_swallows by blast
qed

theorem arithmetic_rule_witness:
  "handle_rule_based other_raises morning ''what is 2+2'' = Some (abacus @ '' 4'')
   \<and> CHR ''x'' \<in> set (calc_of ''2+x'') \<and> CHR ''x'' \<notin> set ''0123456789+-*/(). ''
   \<and> simple_math other_raises ''2+x'' = None
   \<and> handle_rule_based other_raises morning ''2+x'' = None
   \<and> py_eval other_raises (calc_of ''1/0'') = Raises
   \<and> simple_math other_raises ''1/0'' = None"
proof -
  have x: "CHR ''x'' \<in> set (calc_of ''2+x'')" "CHR ''x'' \<notin> set ''0123456789+-*/(). ''"
    by code_simp+
  then have ex: "\<exists>c \<in> set (calc_of ''2+x''). c \<notin> set ''0123456789+-*/(). ''" by blast
  have rules: "\<not> is_greeting (py_strip (py_lower ''2+x''))"
    "\<not> is_time_query (py_strip (py_lower ''2+x''))"
    "\<not> is_date_query (py_strip (py_lower ''2+x''))"
    by code_simp+
  have raises: "py_eval other_raises (calc_of ''1/0'') = Raises" by code_simp
  note a = arithmetic_rule [of other_raises morning "''2+x''"]
  note b = arithmetic_rule [of other_raises morning "''1/0''"]
  show ?thesis using a b x ex rules raises by blast
qed

section \<open>Rule engine: dependence on the clock\<close>

text \<open>
  C8, as stated, fails: the time rule formats the clock reading of the call, so two calls
  with one prompt at different times give different answers.
\<close>

theorem rule_engine_reads_clock_counterexample:
  "handle_rule_based other_raises morning ''what time is it''
     \<noteq> handle_rule_based other_raises evening ''what time is it''"
  by code_simp

text \<open>
  C8, amended: \<open>handle_rule_based\<close> has no state among its arguments and results, as the
  source function assigns to no attribute and to no global. Two calls with one prompt
  return the same result whenever the prompt is answered by the greeting rule or reaches
  neither the time rule nor the date rule; a prompt that reaches the time rule or the
  date rule is answered with the formatted clock reading of the call.
\<close>

theorem rule_engine_clock_dependence:
  "(is_greeting (py_strip (py_lower prompt))
      \<or> (\<not> is_time_query (py_strip (py_lower prompt))
          \<and> \<not> is_date_query (py_strip (py_lower prompt)))
     \<longrightarrow> handle_rule_based other t1 prompt = handle_rule_based other t2 prompt)
   \<and> (\<not> is_greeting (py_strip (py_lower prompt))
        \<and> is_time_query (py_strip (py_lower prompt))
     \<longrightarrow> handle_rule_based other t1 prompt = Some (alarm_clock @ '' '' @ strftime_time t1))
   \<and> (\<not> is_greeting (py_strip (py_lower prompt))
        \<and> \<not> is_time_query (py_strip (py_lower prompt))
        \<and> is_date_query (py_strip (py_lower prompt))
     \<longrightarrow> handle_rule_based other t1 prompt = Some (calendar @ '' '' @ strftime_date t1))"
  by (simp add: handle_rule_based_def Let_def)

theorem rule_engine_clock_dependence_witness:
  "\<not> is_time_query (py_strip (py_lower ''what is 2+2''))
   \<and> \<not> is_date_query (py_strip (py_lower ''what is 2+2''))
   \<and> handle_rule_based other_raises morning ''what is 2+2''
       = handle_rule_based other_raises evening ''what is 2+2''
   \<and> \<not> is_greeting (py_strip (py_lower ''what time is it''))
   \<and> is_time_query (py_strip (py_lower ''what time is it''))
   \<and> handle_rule_based other_raises evening ''what time is it''
       = Some (alarm_clock @ '' 09:30 PM'')
   \<and> is_date_query (py_strip (py_lower ''what day is today''))
   \<and> handle_rule_based other_raises evening ''what day is today''
       = Some (calendar @ '' Tuesday, January 02, 2024'')"
proof -
  have a: "\<not> is_time_query (py_strip (py_lower ''what is 2+2''))"
    "\<not> is_date_query (py_strip (py_lower ''what is 2+2''))"
    by code_simp+
  have b: "\<not> is_greeting (py_strip (py_lower ''what time is it''))"
    "is_time_query (py_strip (py_lower ''what time is it''))"
    by code_simp+
  have c: "\<not> is_greeting (py_strip (py_lower ''what day is today''))"
    "\<not> is_time_query (py_strip (py_lower ''what day is today''))"
    "is_date_query (py_strip (py_lower ''what day is today''))"
    by code_simp+
  have t: "strftime_time evening = ''09:30 PM''" by code_simp
  have d: "strftime_date evening = ''Tuesday, January 02, 2024''" by code_simp
  have r1: "handle_rule_based other_raises morning ''what is 2+2''
       = handle_rule_based other_raises evening ''what is 2+2''"
    using rule_engine_clock_dependence [of "''what is 2+2''" other_raises morning evening] a
    by blast
  have "handle_rule_based other_raises evening ''what time is it''
       = Some (alarm_clock @ '' '' @ strftime_time evening)"
    using rule_engine_clock_dependence [of "''what time is it''" other_raises evening evening] b
    by blast
  then have r2: "handle_rule_based other_raises evening ''what time is it''
       = Some (alarm_clock @ '' 09:30 PM'')"
    by (simp only: t append_Cons append_Nil)
  have "handle_rule_based other_raises evening ''what day is today''
       = Some (calendar @ '' '' @ strftime_date evening)"
    using rule_engine_clock_dependence [of "''what day is today''" other_raises evening evening] c
    by blast
  then have r3: "handle_rule_based other_raises evening ''what day is today''
       = Some (calendar @ '' Tuesday, January 02, 2024'')"
    by (simp only: d append_Cons append_Nil)
  show ?thesis using r1 r2 r3 a b c by blast
qed

section \<open>Router: the error path\<close>

lemma answer_question_to_cloud:
  assumes "handle_rule_based other (now w) prompt = None" and "local_declines w prompt s"
  shows "answer_question other w prompt s = answer_from_cloud w prompt s (local_events w prompt s)"
proof (cases "categorize_complexity prompt = ''simple'' \<and> use_local s")
  case True
  obtain lr io where li: "local_inference w prompt 100 s = (lr, io)" by (cases "local_inference w prompt 100 s")
  with assms(2) True have "lr = None \<or> lr = Some []"
    by (auto simp: local_declines_def split: option.splits)
  then show ?thesis using assms(1) True li
    by (auto simp: answer_question_def answer_from_local_def local_events_def)
next
  case False
  then show ?thesis using assms(1)
    by (auto simp: answer_question_def answer_from_local_def local_events_def)
qed


lemma cloud_inference_parsed:
  assumes "cloud_reply (post w prompt m) m = Some (ans, tk, n)"
  shows "cloud_inference w prompt m s =
           ((Some ans, tk),
            s\<lparr>stats := (stats s)\<lparr>reasoning_tokens_used := reasoning_tokens_used (stats s) + n\<rparr>\<rparr>,
            [CloudPost prompt])"
  using assms by (simp add: cloud_inference_def)







section \<open>Router: reasoning tokens\<close>






section \<open>Router: a reply without a token total\<close>

lemma cloud_reply_default_tokens:
  assumes "response_json r = Some data"
    and "get_default data ''usage'' (JDict []) = Some (JDict us)"
    and "map_of us ''total_tokens'' = None"
    and "cloud_reply r m = Some (ans, tk, n)"
  shows "tk = JInt m"
  using assms by (auto simp: cloud_reply_def split: Option.bind_splits)

lemma answer_from_cloud_answered:
  assumes "cloud_reply (post w prompt 150) 150 = Some (ans, JInt t, n)" and "ans \<noteq> []"
  shows "answer_from_cloud w prompt s io =
           (Returned \<lparr>answer = ''[Cloud AI '' @ globe @ ''] '' @ ans, source = ''cloud'',
                      tokens = t, co2 = real_of_int t * 0.002\<rparr>,
            s\<lparr>stats := (stats s)\<lparr>cloud_responses := cloud_responses (stats s) + 1,
                                 total_tokens_used := total_tokens_used (stats s) + t,
                                 reasoning_tokens_used := reasoning_tokens_used (stats s) + n\<rparr>\<rparr>,
            io @ [CloudPost prompt])"
  using assms
  by (simp add: answer_from_cloud_def cloud_inference_parsed update_stats_def
                calculate_environmental_impact_def)

text \<open>
  C10, amended: when the reply parses and its usage object has no \<open>total_tokens\<close> (or there
  is no usage object), the token value that \<open>cloud_inference\<close> returns is the budget
  \<open>max_tokens\<close>. With the budget of 150 of \<open>answer_question\<close> and a reply whose text is
  not empty, the result of the call has 150 tokens and the estimate for 150 tokens, and
  \<open>total_tokens_used\<close> grows by 150.
\<close>

theorem missing_total_tokens:
  assumes "response_json r = Some data"
    and "get_default data ''usage'' (JDict []) = Some (JDict us)"
    and "map_of us ''total_tokens'' = None"
    and "cloud_reply r m = Some (ans, tk, n)"
  shows "tk = JInt m
         \<and> (m = 150 \<and> post w prompt 150 = r \<and> handle_rule_based other (now w) prompt = None
              \<and> local_declines w prompt s \<and> ans \<noteq> []
            \<longrightarrow> answer_question other w prompt s =
                  (Returned \<lparr>answer = ''[Cloud AI '' @ globe @ ''] '' @ ans, source = ''cloud'',
                             tokens = 150, co2 = 150 * 0.002\<rparr>,
                   s\<lparr>stats := (stats s)\<lparr>cloud_responses := cloud_responses (stats s) + 1,
                                        total_tokens_used := total_tokens_used (stats s) + 150,
                                        reasoning_tokens_used := reasoning_tokens_used (stats s) + n\<rparr>\<rparr>,
                   local_events w prompt s @ [CloudPost prompt]))"
proof (intro conjI impI)
  show tk: "tk = JInt m" using assms by (rule cloud_reply_default_tokens)
  assume a: "m = 150 \<and> post w prompt 150 = r \<and> handle_rule_based other (now w) prompt = None
              \<and> local_declines w prompt s \<and> ans \<noteq> []"
  then have "cloud_reply (post w prompt 150) 150 = Some (ans, JInt 150, n)"
    using assms(4) tk by simp
  moreover have "ans \<noteq> []" using a by simp
  ultimately have "answer_from_cloud w prompt s (local_events w prompt s) =
                  (Returned \<lparr>answer = ''[Cloud AI '' @ globe @ ''] '' @ ans, source = ''cloud'',
                             tokens = 150, co2 = real_of_int 150 * 0.002\<rparr>,
                   s\<lparr>stats := (stats s)\<lparr>cloud_responses := cloud_responses (stats s) + 1,
                                        total_tokens_used := total_tokens_used (stats s) + 150,
                                        reasoning_tokens_used := reasoning_tokens_used (stats s) + n\<rparr>\<rparr>,
                   local_events w prompt s @ [CloudPost prompt])"
    by (rule answer_from_cloud_answered)
  moreover have "answer_question other w prompt s
      = answer_from_cloud w prompt s (local_events w prompt s)"
    using a answer_question_to_cloud by simp
  ultimately show "answer_question other w prompt s =
                  (Returned \<lparr>answer = ''[Cloud AI '' @ globe @ ''] '' @ ans, source = ''cloud'',
                             tokens = 150, co2 = 150 * 0.002\<rparr>,
                   s\<lparr>stats := (stats s)\<lparr>cloud_responses := cloud_responses (stats s) + 1,
                                        total_tokens_used := total_tokens_used (stats s) + 150,
                                        reasoning_tokens_used := reasoning_tokens_used (stats s) + n\<rparr>\<rparr>,
                   local_events w prompt s @ [CloudPost prompt])"
    by simp
qed

theorem missing_total_tokens_witness:
  "response_json (Response 200 (Some reply_without_total)) = Some reply_without_total
   \<and> get_default reply_without_total ''usage'' (JDict []) = Some (JDict [(''prompt_tokens'', JInt 12)])
   \<and> map_of [(''prompt_tokens'', JInt 12)] ''total_tokens'' = None
   \<and> cloud_reply (Response 200 (Some reply_without_total)) 150 = Some (''Blue.'', JInt 150, 0)
   \<and> answer_question other_raises (cloud_only reply_without_total) ''explain in detail why'' ready =
       (Returned \<lparr>answer = ''[Cloud AI '' @ globe @ ''] Blue.'', source = ''cloud'',
                  tokens = 150, co2 = 150 * 0.002\<rparr>,
        ready\<lparr>stats := (stats ready)\<lparr>cloud_responses := cloud_responses (stats ready) + 1,
                                        total_tokens_used := total_tokens_used (stats ready) + 150,
                                        reasoning_tokens_used := reasoning_tokens_used (stats ready) + 0\<rparr>\<rparr>,
        local_events (cloud_only reply_without_total) ''explain in detail why'' ready
          @ [CloudPost ''explain in detail why''])"
proof -
  have h1: "response_json (Response 200 (Some reply_without_total)) = Some reply_without_total"
    by code_simp
  have h2: "get_default reply_without_total ''usage'' (JDict [])
      = Some (JDict [(''prompt_tokens'', JInt 12)])"
    by code_simp
  have h3: "map_of [(''prompt_tokens'', JInt 12)] ''total_tokens'' = None"
    by code_simp
  have h4: "cloud_reply (Response 200 (Some reply_without_total)) 150 = Some (''Blue.'', JInt 150, 0)"
    by code_simp
  have p: "post (cloud_only reply_without_total) ''explain in detail why'' 150
      = Response 200 (Some reply_without_total)"
    by (simp add: cloud_only_def)
  have r: "handle_rule_based other_raises (now (cloud_only reply_without_total))
      ''explain in detail why'' = None"
    by code_simp
  have l: "local_declines (cloud_only reply_without_total) ''explain in detail why'' ready"
    by code_simp
  have ne: "''Blue.'' \<noteq> []" by simp
  show ?thesis
    using missing_total_tokens [OF h1 h2 h3 h4, of "cloud_only reply_without_total"
        "''explain in detail why''" other_raises ready] h1 h2 h3 h4 p r l ne
    by simp
qed

text \<open>
  C10, as stated, fails: when the text of such a reply is empty, the call returns the
  error result with 0 tokens and \<open>total_tokens_used\<close> stays as it was.
\<close>

theorem missing_total_tokens_empty_text_counterexample:
  "response_json (post (cloud_only reply_without_text_and_usage) ''explain in detail why'' 150)
     = Some reply_without_text_and_usage
   \<and> get_default reply_without_text_and_usage ''usage'' (JDict []) = Some (JDict [])
   \<and> cloud_reply (post (cloud_only reply_without_text_and_usage) ''explain in detail why'' 150) 150
     = Some ([], JInt 150, 0)
   \<and> fst (answer_question other_raises (cloud_only reply_without_text_and_usage)
            ''explain in detail why'' ready) = Returned error_result
   \<and> tokens error_result = 0
   \<and> total_tokens_used (stats (fst (snd (answer_question other_raises
         (cloud_only reply_without_text_and_usage) ''explain in detail why'' ready))))
     = total_tokens_used (stats ready)"
  by code_simp

section \<open>Statistics over a sequence of calls\<close>













end
